theory Spec2Isabelle
  imports Main "HOL-Library.Word"
begin

section \<open>JavaScript strings\<close>

text \<open>
  A JavaScript string is a sequence of 16-bit code units; \<open>length\<close> counts code units,
  which is what the schema's \<open>min\<close> and \<open>max\<close> checks compare. String literals of the
  source are ASCII and are written as HOL strings, converted by \<open>js\<close>.
\<close>

type_synonym jsstring = "16 word list"

definition js :: "string \<Rightarrow> jsstring" where
  "js s = map (\<lambda>c. of_nat (of_char c)) s"

text \<open>
  \<open>String.prototype.trim\<close> removes leading and trailing WhiteSpace and LineTerminator
  code points (ECMAScript): TAB, LF, VT, FF, CR, SPACE, NBSP, U+1680, U+2000..U+200A,
  U+2028, U+2029, U+202F, U+205F, U+3000 and U+FEFF. All of them are single code units.
\<close>

definition isWhiteSpace :: "16 word \<Rightarrow> bool" where
  "isWhiteSpace c \<longleftrightarrow>
     c \<in> {0x0009, 0x000A, 0x000B, 0x000C, 0x000D, 0x0020, 0x00A0, 0x1680,
          0x2028, 0x2029, 0x202F, 0x205F, 0x3000, 0xFEFF}
     \<or> (0x2000 \<le> c \<and> c \<le> 0x200A)"

definition trim :: "jsstring \<Rightarrow> jsstring" where
  "trim s = rev (dropWhile isWhiteSpace (rev (dropWhile isWhiteSpace s)))"

text \<open>
  The decimal rendering of a non-negative integer, as the template literal
  \<^verbatim>\<open>`Request failed (${response.status})`\<close> produces it for an HTTP status.
\<close>

function Number_toString :: "nat \<Rightarrow> jsstring" where
  "Number_toString n =
     (if n < 10 then [0x0030 + of_nat n]
      else Number_toString (n div 10) @ [0x0030 + of_nat (n mod 10)])"
  by pat_completeness auto
termination
  by (relation "measure id") auto

declare Number_toString.simps [simp del]

section \<open>Contact page: data\<close>

definition WORKER_ENDPOINT :: jsstring where
  "WORKER_ENDPOINT = js ''https://contact-form.digbadara-finance.workers.dev''"

text \<open>The object held by \<open>useState\<close> as \<open>formData\<close>; \<open>gotcha\<close> is the key \<open>_gotcha\<close>.\<close>

record form_data =
  name :: jsstring
  email :: jsstring
  eventDate :: jsstring
  eventType :: jsstring
  location :: jsstring
  message :: jsstring
  gotcha :: jsstring

definition empty_form :: form_data where
  "empty_form = \<lparr>name = [], email = [], eventDate = [], eventType = [],
                  location = [], message = [], gotcha = []\<rparr>"

subsection \<open>The schema\<close>

text \<open>
  \<open>contactSchema\<close> is built from the string checks of the zod library (version 3, whose
  \<open>ZodError\<close> has the list \<open>errors\<close> that \<open>validateForm\<close> reads). Each string schema
  runs its checks in the order they are chained; \<open>trim\<close> replaces the value seen by the
  later checks, every other check that fails adds one issue, and no check stops the later
  ones. The issue stands for the library's default message for it (the source passes no
  message of its own). What \<open>email()\<close> accepts is the library's regular expression, which
  is not part of this repository: it is the parameter \<open>isEmail\<close>.
\<close>

datatype zod_check = Trim | Min nat | Max nat | Email

datatype zod_issue = too_small nat | too_big nat | invalid_email

fun zod_string :: "(jsstring \<Rightarrow> bool) \<Rightarrow> zod_check list \<Rightarrow> jsstring \<Rightarrow> zod_issue list" where
  "zod_string isEmail [] v = []"
| "zod_string isEmail (Trim # cs) v = zod_string isEmail cs (trim v)"
| "zod_string isEmail (Min n # cs) v =
     (if length v < n then [too_small n] else []) @ zod_string isEmail cs v"
| "zod_string isEmail (Max n # cs) v =
     (if length v > n then [too_big n] else []) @ zod_string isEmail cs v"
| "zod_string isEmail (Email # cs) v =
     (if isEmail v then [] else [invalid_email]) @ zod_string isEmail cs v"

text \<open>
  \<open>contactSchema.parse(formData)\<close>: the issues found, each with the first element of its
  path (the key of the field), in the order of the keys of the schema. The empty list
  means that \<open>parse\<close> returns; a non-empty list is the \<open>ZodError\<close> it throws. Every field
  of \<open>formData\<close> is a string at all times, so \<open>optional()\<close> always hands the value to the
  schema it wraps.
\<close>

definition contactSchema_parse :: "(jsstring \<Rightarrow> bool) \<Rightarrow> form_data \<Rightarrow> (string \<times> zod_issue) list" where
  "contactSchema_parse isEmail fd =
     map (Pair ''name'') (zod_string isEmail [Trim, Min 1, Max 100] (name fd)) @
     map (Pair ''email'') (zod_string isEmail [Trim, Email, Max 255] (email fd)) @
     map (Pair ''eventDate'') (zod_string isEmail [] (eventDate fd)) @
     map (Pair ''eventType'') (zod_string isEmail [] (eventType fd)) @
     map (Pair ''location'') (zod_string isEmail [Trim, Max 200] (location fd)) @
     map (Pair ''message'') (zod_string isEmail [Trim, Min 1, Max 2000] (message fd)) @
     map (Pair ''_gotcha'') (zod_string isEmail [] (gotcha fd))"

subsection \<open>Component state and effects\<close>

record toast =
  title :: jsstring
  description :: jsstring
  variant :: "string option"

record request =
  url :: jsstring
  http_method :: string
  headers :: "(string \<times> string) list"
  body :: "(string \<times> jsstring) list"

text \<open>
  The four \<open>useState\<close> cells of the component, and the two effects it has on the outside:
  the calls of \<open>fetch\<close> and the calls of \<open>toast\<close>, each logged in order.
\<close>

record contact =
  formData :: form_data
  isSubmitting :: bool
  errors :: "string \<rightharpoonup> zod_issue"
  submitError :: "jsstring option"
  fetched :: "request list"
  toasts :: "toast list"

definition initial :: contact where
  "initial = \<lparr>formData = empty_form, isSubmitting = False, errors = Map.empty,
               submitError = None, fetched = [], toasts = []\<rparr>"

text \<open>What \<open>fetch\<close> can come back with: a response, or a rejection with some thrown value.\<close>

record response =
  ok :: bool
  status :: nat

datatype thrown = Error jsstring | NotAnError

datatype fetch_outcome = Resolved response | Rejected thrown

section \<open>Contact page: operations\<close>

text \<open>
  \<open>validateForm\<close>: the \<open>forEach\<close> over the issues of the \<open>ZodError\<close> keeps, for each key, the
  message of the last issue with that key.
\<close>

definition forEach_callback :: "(string \<rightharpoonup> zod_issue) \<Rightarrow> string \<times> zod_issue \<Rightarrow> (string \<rightharpoonup> zod_issue)" where
  "forEach_callback newErrors err =
     (if fst err \<noteq> [] then newErrors(fst err \<mapsto> snd err) else newErrors)"

definition validateForm :: "(jsstring \<Rightarrow> bool) \<Rightarrow> contact \<Rightarrow> bool \<times> contact" where
  "validateForm isEmail s =
     (case contactSchema_parse isEmail (formData s) of
        [] \<Rightarrow> (True, s\<lparr>errors := Map.empty\<rparr>)
      | err # errs \<Rightarrow>
          (False, s\<lparr>errors := foldl forEach_callback Map.empty (err # errs)\<rparr>))"

text \<open>\<open>x || undefined\<close> on a string: the empty string is falsy.\<close>

definition or_undefined :: "jsstring \<Rightarrow> jsstring option" where
  "or_undefined x = (if x = [] then None else Some x)"

text \<open>
  \<open>JSON.stringify\<close> of an object whose properties are strings or \<open>undefined\<close>: the members
  of the JSON object, in the order of the properties, without the undefined ones. The
  escaping of the text of each string is the runtime's and is not modelled.
\<close>

definition JSON_stringify :: "(string \<times> jsstring option) list \<Rightarrow> (string \<times> jsstring) list" where
  "JSON_stringify props = List.map_filter (\<lambda>(k, v). map_option (Pair k) v) props"

definition submit_request :: "form_data \<Rightarrow> request" where
  "submit_request fd =
     \<lparr>url = WORKER_ENDPOINT,
      http_method = ''POST'',
      headers = [(''Content-Type'', ''application/json'')],
      body = JSON_stringify
        [(''name'', Some (trim (name fd))),
         (''email'', Some (trim (email fd))),
         (''eventDate'', or_undefined (eventDate fd)),
         (''eventType'', or_undefined (eventType fd)),
         (''location'', or_undefined (trim (location fd))),
         (''message'', Some (trim (message fd))),
         (''_gotcha'', Some (gotcha fd))]\<rparr>"

text \<open>
  \<open>handleSubmit\<close> up to its \<open>await\<close>: the state it leaves, and the request it is waiting
  for (\<open>None\<close> when it has returned). \<open>e.preventDefault()\<close> acts on the event only and
  has no part in the state.
\<close>

definition handleSubmit_begin :: "(jsstring \<Rightarrow> bool) \<Rightarrow> contact \<Rightarrow> contact \<times> request option" where
  "handleSubmit_begin isEmail s0 =
     (let s1 = s0\<lparr>submitError := None\<rparr>;
          (valid, s2) = validateForm isEmail s1
      in if \<not> valid then (s2, None)
         else let req = submit_request (formData s0)
              in (s2\<lparr>isSubmitting := True, fetched := fetched s2 @ [req]\<rparr>, Some req))"

text \<open>The \<open>catch\<close> block.\<close>

definition catch_block :: "thrown \<Rightarrow> contact \<Rightarrow> contact" where
  "catch_block e s =
     (let msg = (case e of Error m \<Rightarrow> m | NotAnError \<Rightarrow> js ''Submission failed.'')
      in s\<lparr>submitError := Some msg,
            toasts := toasts s @
              [\<lparr>title = js ''Submission Failed'', description = msg,
                variant = Some ''destructive''\<rparr>]\<rparr>)"

text \<open>
  \<open>handleSubmit\<close> from the moment \<open>fetch\<close> settles: the rest of the \<open>try\<close> block, the
  \<open>catch\<close> block and the \<open>finally\<close> block. It runs on the state of that moment.
\<close>

definition handleSubmit_settle :: "fetch_outcome \<Rightarrow> contact \<Rightarrow> contact" where
  "handleSubmit_settle outcome s =
     (let s' =
        (case outcome of
           Rejected e \<Rightarrow> catch_block e s
         | Resolved r \<Rightarrow>
             if \<not> ok r
             then catch_block
                    (Error (js ''Request failed ('' @ Number_toString (status r) @ js '')'')) s
             else s\<lparr>toasts := toasts s @
                      [\<lparr>title = js ''Request Received'',
                        description =
                          js ''Thank you for your inquiry. We'll be in touch within 24 hours.'',
                        variant = None\<rparr>],
                    formData := empty_form\<rparr>)
      in s'\<lparr>isSubmitting := False\<rparr>)"

text \<open>
  One whole invocation of \<open>handleSubmit\<close>, with the network as the function \<open>net\<close> that
  answers the request.
\<close>

definition handleSubmit :: "(jsstring \<Rightarrow> bool) \<Rightarrow> (request \<Rightarrow> fetch_outcome) \<Rightarrow> contact \<Rightarrow> contact" where
  "handleSubmit isEmail net s =
     (case handleSubmit_begin isEmail s of
        (s', None) \<Rightarrow> s'
      | (s', Some req) \<Rightarrow> handleSubmit_settle (net req) s')"

text \<open>
  \<open>handleChange\<close>: the computed key \<open>[e.target.name]\<close> overwrites one property. A name
  that is none of the seven keys adds a property that nothing in the component reads.
\<close>

definition handleChange :: "contact \<Rightarrow> string \<times> jsstring \<Rightarrow> contact" where
  "handleChange s e =
     (let n = fst e; v = snd e; prev = formData s
      in s\<lparr>formData :=
           (if n = ''name'' then prev\<lparr>name := v\<rparr>
            else if n = ''email'' then prev\<lparr>email := v\<rparr>
            else if n = ''eventDate'' then prev\<lparr>eventDate := v\<rparr>
            else if n = ''eventType'' then prev\<lparr>eventType := v\<rparr>
            else if n = ''location'' then prev\<lparr>location := v\<rparr>
            else if n = ''message'' then prev\<lparr>message := v\<rparr>
            else if n = ''_gotcha'' then prev\<lparr>gotcha := v\<rparr>
            else prev)\<rparr>)"

subsection \<open>What the page renders from the state\<close>

text \<open>\<open>{submitError && <div>...</div>}\<close>: the banner, when \<open>submitError\<close> is truthy.\<close>

definition banner :: "contact \<Rightarrow> jsstring option" where
  "banner s = (case submitError s of None \<Rightarrow> None | Some m \<Rightarrow> if m = [] then None else Some m)"

definition button_disabled :: "contact \<Rightarrow> bool" where
  "button_disabled s = isSubmitting s"

definition button_label :: "contact \<Rightarrow> string" where
  "button_label s = (if isSubmitting s then ''Sending...'' else ''Request Availability'')"

section \<open>ScrollToTop\<close>

record router_location =
  pathname :: jsstring
  search :: jsstring
  hash :: jsstring

record scroll_options =
  top_pos :: nat
  left_pos :: nat
  behavior :: string

text \<open>
  The component instance: the dependency array of the effect as of the last render
  (\<open>None\<close> before the first one), and the calls of \<open>window.scrollTo\<close> made so far.
  \<open>useEffect\<close> runs the effect after the first render and after each render whose
  dependencies differ from those of the render before.
\<close>

record scroll_to_top =
  deps :: "(jsstring \<times> jsstring) option"
  scrolled :: "scroll_options list"

definition ScrollToTop :: "router_location \<Rightarrow> scroll_to_top \<Rightarrow> scroll_to_top" where
  "ScrollToTop loc c =
     (let d = (pathname loc, hash loc)
      in if deps c = Some d then c
         else c\<lparr>deps := Some d,
                scrolled := scrolled c @ [\<lparr>top_pos = 0, left_pos = 0, behavior = ''smooth''\<rparr>]\<rparr>)"

section \<open>Properties\<close>

subsection \<open>The schema\<close>

lemma foldl_field:
  "k \<noteq> [] \<Longrightarrow>
   foldl forEach_callback m (map (Pair k) xs) = (if xs = [] then m else m(k \<mapsto> last xs))"
  by (induction xs arbitrary: m) (auto simp: forEach_callback_def)

lemma zod_name:
  "zod_string isEmail [Trim, Min 1, Max 100] v =
     (if trim v = [] then [too_small 1]
      else if 100 < length (trim v) then [too_big 100] else [])"
  by auto

lemma zod_email:
  "zod_string isEmail [Trim, Email, Max 255] v =
     (if isEmail (trim v) then [] else [invalid_email]) @
     (if 255 < length (trim v) then [too_big 255] else [])"
  by simp

lemma zod_location:
  "zod_string isEmail [Trim, Max 200] v =
     (if 200 < length (trim v) then [too_big 200] else [])"
  by simp

lemma zod_message:
  "zod_string isEmail [Trim, Min 1, Max 2000] v =
     (if trim v = [] then [too_small 1]
      else if 2000 < length (trim v) then [too_big 2000] else [])"
  by auto

lemma parse_eq:
  "contactSchema_parse isEmail fd =
     map (Pair ''name'')
       (if trim (name fd) = [] then [too_small 1]
        else if 100 < length (trim (name fd)) then [too_big 100] else []) @
     map (Pair ''email'')
       ((if isEmail (trim (email fd)) then [] else [invalid_email]) @
        (if 255 < length (trim (email fd)) then [too_big 255] else [])) @
     map (Pair ''location'')
       (if 200 < length (trim (location fd)) then [too_big 200] else []) @
     map (Pair ''message'')
       (if trim (message fd) = [] then [too_small 1]
        else if 2000 < length (trim (message fd)) then [too_big 2000] else [])"
  unfolding contactSchema_parse_def zod_name zod_email zod_location zod_message by simp

lemma parse_ok_iff:
  "contactSchema_parse isEmail fd = [] \<longleftrightarrow>
     trim (name fd) \<noteq> [] \<and> length (trim (name fd)) \<le> 100 \<and>
     isEmail (trim (email fd)) \<and> length (trim (email fd)) \<le> 255 \<and>
     length (trim (location fd)) \<le> 200 \<and>
     trim (message fd) \<noteq> [] \<and> length (trim (message fd)) \<le> 2000"
  unfolding parse_eq by (simp add: not_less)

lemma newErrors_lookup:
  "foldl forEach_callback Map.empty (contactSchema_parse isEmail fd) k =
     (if k = ''name'' then
        (if trim (name fd) = [] then Some (too_small 1)
         else if 100 < length (trim (name fd)) then Some (too_big 100) else None)
      else if k = ''email'' then
        (if 255 < length (trim (email fd)) then Some (too_big 255)
         else if isEmail (trim (email fd)) then None else Some invalid_email)
      else if k = ''location'' then
        (if 200 < length (trim (location fd)) then Some (too_big 200) else None)
      else if k = ''message'' then
        (if trim (message fd) = [] then Some (too_small 1)
         else if 2000 < length (trim (message fd)) then Some (too_big 2000) else None)
      else None)"
  unfolding parse_eq foldl_append by (simp add: foldl_field)

lemma dropWhile_all: "\<forall>c\<in>set v. P c \<Longrightarrow> dropWhile P v = []"
  by (induction v) auto

lemma trim_whitespace: "\<forall>c\<in>set v. isWhiteSpace c \<Longrightarrow> trim v = []"
  by (simp add: trim_def dropWhile_all)

lemma trim_Nil: "trim [] = []"
  by (simp add: trim_def)

subsection \<open>The two halves of \<open>handleSubmit\<close>\<close>

lemma begin_invalid:
  "contactSchema_parse isEmail (formData s) \<noteq> [] \<Longrightarrow>
   handleSubmit_begin isEmail s =
     (s\<lparr>submitError := None,
        errors := foldl forEach_callback Map.empty (contactSchema_parse isEmail (formData s))\<rparr>,
      None)"
  by (cases "contactSchema_parse isEmail (formData s)")
     (simp_all add: handleSubmit_begin_def validateForm_def Let_def)

lemma begin_valid:
  "contactSchema_parse isEmail (formData s) = [] \<Longrightarrow>
   handleSubmit_begin isEmail s =
     (s\<lparr>submitError := None, errors := Map.empty, isSubmitting := True,
        fetched := fetched s @ [submit_request (formData s)]\<rparr>,
      Some (submit_request (formData s)))"
  by (simp add: handleSubmit_begin_def validateForm_def Let_def)

lemma handleSubmit_invalid:
  "contactSchema_parse isEmail (formData s) \<noteq> [] \<Longrightarrow>
   handleSubmit isEmail net s =
     s\<lparr>submitError := None,
       errors := foldl forEach_callback Map.empty (contactSchema_parse isEmail (formData s))\<rparr>"
  by (simp add: handleSubmit_def begin_invalid)

lemma handleSubmit_valid:
  "contactSchema_parse isEmail (formData s) = [] \<Longrightarrow>
   handleSubmit isEmail net s =
     handleSubmit_settle (net (submit_request (formData s)))
       (s\<lparr>submitError := None, errors := Map.empty, isSubmitting := True,
          fetched := fetched s @ [submit_request (formData s)]\<rparr>)"
  by (simp add: handleSubmit_def begin_valid)

lemma settle_rejected:
  "handleSubmit_settle (Rejected e) s =
     (catch_block e s)\<lparr>isSubmitting := False\<rparr>"
  by (simp add: handleSubmit_settle_def)

lemma settle_not_ok:
  "\<not> ok r \<Longrightarrow>
   handleSubmit_settle (Resolved r) s =
     (catch_block (Error (js ''Request failed ('' @ Number_toString (status r) @ js '')'')) s)
       \<lparr>isSubmitting := False\<rparr>"
  by (simp add: handleSubmit_settle_def)

lemma settle_ok:
  "ok r \<Longrightarrow>
   handleSubmit_settle (Resolved r) s =
     s\<lparr>toasts := toasts s @
          [\<lparr>title = js ''Request Received'',
            description = js ''Thank you for your inquiry. We'll be in touch within 24 hours.'',
            variant = None\<rparr>],
       formData := empty_form, isSubmitting := False\<rparr>"
  by (simp add: handleSubmit_settle_def)

lemma catch_block_eq:
  "catch_block e s =
     s\<lparr>submitError := Some (case e of Error m \<Rightarrow> m | NotAnError \<Rightarrow> js ''Submission failed.''),
       toasts := toasts s @
         [\<lparr>title = js ''Submission Failed'',
           description = (case e of Error m \<Rightarrow> m | NotAnError \<Rightarrow> js ''Submission failed.''),
           variant = Some ''destructive''\<rparr>]\<rparr>"
  by (simp add: catch_block_def Let_def)

lemma fetched_settle: "fetched (handleSubmit_settle outcome s) = fetched s"
  by (simp add: handleSubmit_settle_def catch_block_eq split: fetch_outcome.split)

lemma isSubmitting_settle: "\<not> isSubmitting (handleSubmit_settle outcome s)"
  by (simp add: handleSubmit_settle_def)

lemma body_submit_request:
  "body (submit_request fd) =
     [(''name'', trim (name fd)), (''email'', trim (email fd))] @
     (if eventDate fd = [] then [] else [(''eventDate'', eventDate fd)]) @
     (if eventType fd = [] then [] else [(''eventType'', eventType fd)]) @
     (if trim (location fd) = [] then [] else [(''location'', trim (location fd))]) @
     [(''message'', trim (message fd)), (''_gotcha'', gotcha fd)]"
  by (simp add: submit_request_def JSON_stringify_def List.map_filter_simps or_undefined_def)

text \<open>The concrete form used in the examples below, and what \<open>trim\<close> does on its fields.\<close>

lemma trim_examples:
  "trim (js ''Ada'') = js ''Ada''"
  "trim (js '' a@b.co '') = js ''a@b.co''"
  "trim (js ''Hi'') = js ''Hi''"
  "trim (js ''  '') = []"
  "trim (js ''x'') = js ''x''"
  by (simp_all add: trim_def js_def isWhiteSpace_def)

lemma js_simps:
  "js s = [] \<longleftrightarrow> s = []"
  "length (js s) = length s"
  by (simp_all add: js_def)

section \<open>The claims\<close>

text \<open>
  C1. When the form data fails the schema check (the name is empty after trimming or
  its trimmed value is longer than 100 code units, the trimmed email is not a valid
  address or is longer than 255, the message is empty after trimming or its trimmed
  value is longer than 2000, or the trimmed location is longer than 200), \<open>handleSubmit\<close>
  makes no request, leaves the form field values as they were, and records under the
  key of each failing field the message of its last issue, and nothing under any other
  key.
\<close>

theorem handleSubmit_invalid_form:
  assumes "trim (name (formData s)) = [] \<or> 100 < length (trim (name (formData s)))
         \<or> \<not> isEmail (trim (email (formData s))) \<or> 255 < length (trim (email (formData s)))
         \<or> trim (message (formData s)) = [] \<or> 2000 < length (trim (message (formData s)))
         \<or> 200 < length (trim (location (formData s)))"
  shows "contactSchema_parse isEmail (formData s) \<noteq> []
       \<and> fetched (handleSubmit isEmail net s) = fetched s
       \<and> formData (handleSubmit isEmail net s) = formData s
       \<and> errors (handleSubmit isEmail net s) ''name'' =
           (if trim (name (formData s)) = [] then Some (too_small 1)
            else if 100 < length (trim (name (formData s))) then Some (too_big 100) else None)
       \<and> errors (handleSubmit isEmail net s) ''email'' =
           (if 255 < length (trim (email (formData s))) then Some (too_big 255)
            else if isEmail (trim (email (formData s))) then None else Some invalid_email)
       \<and> errors (handleSubmit isEmail net s) ''message'' =
           (if trim (message (formData s)) = [] then Some (too_small 1)
            else if 2000 < length (trim (message (formData s))) then Some (too_big 2000) else None)
       \<and> errors (handleSubmit isEmail net s) ''location'' =
           (if 200 < length (trim (location (formData s))) then Some (too_big 200) else None)
       \<and> dom (errors (handleSubmit isEmail net s)) \<subseteq> {''name'', ''email'', ''message'', ''location''}"
proof -
  from assms have bad: "contactSchema_parse isEmail (formData s) \<noteq> []"
    unfolding parse_ok_iff by (auto simp: not_le)
  have hs: "handleSubmit isEmail net s =
      s\<lparr>submitError := None,
        errors := foldl forEach_callback Map.empty (contactSchema_parse isEmail (formData s))\<rparr>"
    by (rule handleSubmit_invalid [OF bad])
  have lk: "errors (handleSubmit isEmail net s) k =
      foldl forEach_callback Map.empty (contactSchema_parse isEmail (formData s)) k" for k
    by (simp add: hs)
  have d: "dom (errors (handleSubmit isEmail net s)) \<subseteq> {''name'', ''email'', ''message'', ''location''}"
  proof
    fix k assume "k \<in> dom (errors (handleSubmit isEmail net s))"
    then have "foldl forEach_callback Map.empty (contactSchema_parse isEmail (formData s)) k \<noteq> None"
      by (auto simp: lk)
    then show "k \<in> {''name'', ''email'', ''message'', ''location''}"
      unfolding newErrors_lookup by (simp split: if_splits)
  qed
  have f: "fetched (handleSubmit isEmail net s) = fetched s"
    and g: "formData (handleSubmit isEmail net s) = formData s"
    by (simp_all add: hs)
  have n: "errors (handleSubmit isEmail net s) ''name'' =
      (if trim (name (formData s)) = [] then Some (too_small 1)
       else if 100 < length (trim (name (formData s))) then Some (too_big 100) else None)"
    by (simp add: lk newErrors_lookup)
  have e: "errors (handleSubmit isEmail net s) ''email'' =
      (if 255 < length (trim (email (formData s))) then Some (too_big 255)
       else if isEmail (trim (email (formData s))) then None else Some invalid_email)"
    by (simp add: lk newErrors_lookup)
  have m: "errors (handleSubmit isEmail net s) ''message'' =
      (if trim (message (formData s)) = [] then Some (too_small 1)
       else if 2000 < length (trim (message (formData s))) then Some (too_big 2000) else None)"
    by (simp add: lk newErrors_lookup)
  have l: "errors (handleSubmit isEmail net s) ''location'' =
      (if 200 < length (trim (location (formData s))) then Some (too_big 200) else None)"
    by (simp add: lk newErrors_lookup)
  show ?thesis
    by (intro conjI) (fact bad f g n e m l d)+
qed

theorem handleSubmit_invalid_form_witness:
  "fetched (handleSubmit (\<lambda>v. v = js ''a@b.co'') (\<lambda>req. Resolved \<lparr>ok = True, status = 200\<rparr>)
      (initial\<lparr>formData := empty_form\<lparr>name := js ''  '', email := js ''x'', message := js ''Hi''\<rparr>\<rparr>)) = []
   \<and> errors (handleSubmit (\<lambda>v. v = js ''a@b.co'') (\<lambda>req. Resolved \<lparr>ok = True, status = 200\<rparr>)
      (initial\<lparr>formData := empty_form\<lparr>name := js ''  '', email := js ''x'', message := js ''Hi''\<rparr>\<rparr>)) ''name''
       = Some (too_small 1)
   \<and> errors (handleSubmit (\<lambda>v. v = js ''a@b.co'') (\<lambda>req. Resolved \<lparr>ok = True, status = 200\<rparr>)
      (initial\<lparr>formData := empty_form\<lparr>name := js ''  '', email := js ''x'', message := js ''Hi''\<rparr>\<rparr>)) ''email''
       = Some invalid_email
   \<and> errors (handleSubmit (\<lambda>v. v = js ''a@b.co'') (\<lambda>req. Resolved \<lparr>ok = True, status = 200\<rparr>)
      (initial\<lparr>formData := empty_form\<lparr>name := js ''  '', email := js ''x'', message := js ''Hi''\<rparr>\<rparr>)) ''message''
       = None"
proof -
  have h: "trim (name (formData (initial\<lparr>formData := empty_form\<lparr>name := js ''  '', email := js ''x'', message := js ''Hi''\<rparr>\<rparr>))) = []"
    by (simp add: trim_examples)
  have e: "js ''x'' \<noteq> js ''a@b.co''" "js ''Hi'' \<noteq> []"
    by (simp_all add: js_def)
  show ?thesis
    using handleSubmit_invalid_form
      [of "initial\<lparr>formData := empty_form\<lparr>name := js ''  '', email := js ''x'', message := js ''Hi''\<rparr>\<rparr>"
          "\<lambda>v. v = js ''a@b.co''" "\<lambda>req. Resolved \<lparr>ok = True, status = 200\<rparr>", OF disjI1, OF h] e
    by (simp add: trim_examples initial_def js_simps)
qed

text \<open>
  C2. When validation succeeds, \<open>handleSubmit\<close> sends exactly one request: a POST to the
  fixed URL, whose body is the JSON object with the trimmed name, email and message, the
  honeypot value, and those of eventDate, eventType and (trimmed) location that are not
  empty; each of these three is left out when its form value is the empty string.
\<close>

theorem handleSubmit_posts_form:
  assumes "contactSchema_parse isEmail (formData s) = []"
  shows "fetched (handleSubmit isEmail net s) = fetched s @ [submit_request (formData s)]
       \<and> url (submit_request (formData s)) =
           js ''https://contact-form.digbadara-finance.workers.dev''
       \<and> http_method (submit_request (formData s)) = ''POST''
       \<and> headers (submit_request (formData s)) = [(''Content-Type'', ''application/json'')]
       \<and> body (submit_request (formData s)) =
           [(''name'', trim (name (formData s))), (''email'', trim (email (formData s)))] @
           (if eventDate (formData s) = [] then []
            else [(''eventDate'', eventDate (formData s))]) @
           (if eventType (formData s) = [] then []
            else [(''eventType'', eventType (formData s))]) @
           (if trim (location (formData s)) = [] then []
            else [(''location'', trim (location (formData s)))]) @
           [(''message'', trim (message (formData s))), (''_gotcha'', gotcha (formData s))]
       \<and> (eventDate (formData s) = [] \<longrightarrow>
            map_of (body (submit_request (formData s))) ''eventDate'' = None)
       \<and> (eventType (formData s) = [] \<longrightarrow>
            map_of (body (submit_request (formData s))) ''eventType'' = None)
       \<and> (location (formData s) = [] \<longrightarrow>
            map_of (body (submit_request (formData s))) ''location'' = None)"
proof -
  have f: "fetched (handleSubmit isEmail net s) = fetched s @ [submit_request (formData s)]"
    by (simp add: handleSubmit_valid [OF assms] fetched_settle)
  have u: "url (submit_request (formData s)) =
      js ''https://contact-form.digbadara-finance.workers.dev''"
    and m: "http_method (submit_request (formData s)) = ''POST''"
    and h: "headers (submit_request (formData s)) = [(''Content-Type'', ''application/json'')]"
    by (simp_all add: submit_request_def WORKER_ENDPOINT_def)
  have d: "eventDate (formData s) = [] \<longrightarrow>
      map_of (body (submit_request (formData s))) ''eventDate'' = None"
    by (simp add: body_submit_request)
  have t: "eventType (formData s) = [] \<longrightarrow>
      map_of (body (submit_request (formData s))) ''eventType'' = None"
    by (simp add: body_submit_request)
  have l: "location (formData s) = [] \<longrightarrow>
      map_of (body (submit_request (formData s))) ''location'' = None"
    by (simp add: body_submit_request trim_Nil)
  show ?thesis
    by (intro conjI) (fact f u m h d t l body_submit_request)+
qed

theorem handleSubmit_posts_form_witness:
  "map body (fetched (handleSubmit (\<lambda>v. v = js ''a@b.co'') (\<lambda>req. Resolved \<lparr>ok = True, status = 200\<rparr>)
      (initial\<lparr>formData := empty_form\<lparr>name := js ''Ada'', email := js '' a@b.co '', message := js ''Hi''\<rparr>\<rparr>)))
     = [[(''name'', js ''Ada''), (''email'', js ''a@b.co''), (''message'', js ''Hi''), (''_gotcha'', [])]]
   \<and> map http_method (fetched (handleSubmit (\<lambda>v. v = js ''a@b.co'') (\<lambda>req. Resolved \<lparr>ok = True, status = 200\<rparr>)
      (initial\<lparr>formData := empty_form\<lparr>name := js ''Ada'', email := js '' a@b.co '', message := js ''Hi''\<rparr>\<rparr>)))
     = [''POST'']"
proof -
  have e: "js ''Ada'' \<noteq> []" "js ''Hi'' \<noteq> []"
    by (simp_all add: js_def)
  have h: "contactSchema_parse (\<lambda>v. v = js ''a@b.co'')
      (formData (initial\<lparr>formData := empty_form\<lparr>name := js ''Ada'', email := js '' a@b.co '', message := js ''Hi''\<rparr>\<rparr>)) = []"
    unfolding parse_ok_iff using e by (simp add: trim_examples empty_form_def trim_Nil js_simps)
  show ?thesis
    using handleSubmit_posts_form [OF h, of "\<lambda>req. Resolved \<lparr>ok = True, status = 200\<rparr>"]
    by (simp add: trim_examples empty_form_def initial_def trim_Nil)
qed

text \<open>
  C3. When the request of a valid submission is rejected (a network failure) or comes
  back with a response that is not ok, \<open>handleSubmit\<close> sets \<open>submitError\<close> to a message
  (the message of the thrown error, \<open>Submission failed.\<close> when the thrown value is not an
  error, \<open>Request failed (status)\<close> for a response), shows one destructive toast with
  that message, and leaves the form field values as they were. The part of \<open>handleSubmit\<close>
  that runs after such an answer does so from any state \<open>t\<close> it finds, for instance after
  change events that arrived while the request was awaited.
\<close>

theorem handleSubmit_failure:
  assumes "contactSchema_parse isEmail (formData s) = []"
      and "(\<exists>e. net (submit_request (formData s)) = Rejected e)
         \<or> (\<exists>r. net (submit_request (formData s)) = Resolved r \<and> \<not> ok r)"
  shows "submitError (handleSubmit isEmail net s) =
           Some (case net (submit_request (formData s)) of
                   Rejected (Error m) \<Rightarrow> m
                 | Rejected NotAnError \<Rightarrow> js ''Submission failed.''
                 | Resolved r \<Rightarrow> js ''Request failed ('' @ Number_toString (status r) @ js '')'')
       \<and> toasts (handleSubmit isEmail net s) =
           toasts s @
           [\<lparr>title = js ''Submission Failed'',
             description =
               (case net (submit_request (formData s)) of
                  Rejected (Error m) \<Rightarrow> m
                | Rejected NotAnError \<Rightarrow> js ''Submission failed.''
                | Resolved r \<Rightarrow> js ''Request failed ('' @ Number_toString (status r) @ js '')''),
             variant = Some ''destructive''\<rparr>]
       \<and> formData (handleSubmit isEmail net s) = formData s
       \<and> submitError (handleSubmit_settle (net (submit_request (formData s))) t) \<noteq> None
       \<and> formData (handleSubmit_settle (net (submit_request (formData s))) t) = formData t"
  using assms(2)
  by (auto simp: handleSubmit_valid [OF assms(1)] settle_rejected settle_not_ok catch_block_eq)

theorem handleSubmit_failure_witness:
  "(let s = initial\<lparr>formData := empty_form\<lparr>name := js ''Ada'', email := js '' a@b.co '', message := js ''Hi''\<rparr>\<rparr>;
        s' = handleSubmit (\<lambda>v. v = js ''a@b.co'') (\<lambda>req. Resolved \<lparr>ok = False, status = 500\<rparr>) s
    in submitError s' = Some (js ''Request failed (500)'')
     \<and> map variant (toasts s') = [Some ''destructive'']
     \<and> name (formData s') = js ''Ada'')"
proof -
  have e: "js ''Ada'' \<noteq> []" "js ''Hi'' \<noteq> []"
    by (simp_all add: js_def)
  have h: "contactSchema_parse (\<lambda>v. v = js ''a@b.co'')
      (formData (initial\<lparr>formData := empty_form\<lparr>name := js ''Ada'', email := js '' a@b.co '', message := js ''Hi''\<rparr>\<rparr>)) = []"
    unfolding parse_ok_iff using e by (simp add: trim_examples empty_form_def trim_Nil js_simps)
  have n: "Number_toString 500 = js ''500''"
    by (simp add: Number_toString.simps js_def)
  have c: "js ''Request failed ('' @ js ''500'' @ js '')'' = js ''Request failed (500)''"
    by (simp add: js_def)
  show ?thesis
    using handleSubmit_failure [OF h, of "\<lambda>req. Resolved \<lparr>ok = False, status = 500\<rparr>"]
    by (simp add: Let_def initial_def empty_form_def n c)
qed

text \<open>
  C4. When the request of a valid submission comes back with a response that is ok,
  \<open>handleSubmit\<close> shows the confirmation toast and sets every form field (name, email,
  eventDate, eventType, location, message and _gotcha) to the empty string, whatever the
  state \<open>t\<close> in which the answer finds the component.
\<close>

theorem handleSubmit_success:
  assumes "contactSchema_parse isEmail (formData s) = []"
      and "net (submit_request (formData s)) = Resolved r" and "ok r"
  shows "formData (handleSubmit isEmail net s) =
           \<lparr>name = [], email = [], eventDate = [], eventType = [],
            location = [], message = [], gotcha = []\<rparr>
       \<and> toasts (handleSubmit isEmail net s) =
           toasts s @
           [\<lparr>title = js ''Request Received'',
             description = js ''Thank you for your inquiry. We'll be in touch within 24 hours.'',
             variant = None\<rparr>]
       \<and> submitError (handleSubmit isEmail net s) = None
       \<and> formData (handleSubmit_settle (Resolved r) t) =
           \<lparr>name = [], email = [], eventDate = [], eventType = [],
            location = [], message = [], gotcha = []\<rparr>"
  by (simp add: handleSubmit_valid [OF assms(1)] assms(2) settle_ok [OF assms(3)] empty_form_def)

theorem handleSubmit_success_witness:
  "(let s = initial\<lparr>formData := empty_form\<lparr>name := js ''Ada'', email := js '' a@b.co '', message := js ''Hi''\<rparr>\<rparr>;
        s' = handleSubmit (\<lambda>v. v = js ''a@b.co'') (\<lambda>req. Resolved \<lparr>ok = True, status = 200\<rparr>) s
    in name (formData s') = [] \<and> email (formData s') = [] \<and> message (formData s') = []
     \<and> map title (toasts s') = [js ''Request Received''])"
proof -
  have e: "js ''Ada'' \<noteq> []" "js ''Hi'' \<noteq> []"
    by (simp_all add: js_def)
  have h: "contactSchema_parse (\<lambda>v. v = js ''a@b.co'')
      (formData (initial\<lparr>formData := empty_form\<lparr>name := js ''Ada'', email := js '' a@b.co '', message := js ''Hi''\<rparr>\<rparr>)) = []"
    unfolding parse_ok_iff using e by (simp add: trim_examples empty_form_def trim_Nil js_simps)
  show ?thesis
    using handleSubmit_success [OF h, of "\<lambda>req. Resolved \<lparr>ok = True, status = 200\<rparr>" "\<lparr>ok = True, status = 200\<rparr>"]
    by (simp add: Let_def initial_def)
qed

text \<open>
  C5. As stated (the value of \<open>_gotcha\<close> in the payload is always the empty string) the
  claim fails: a change event on the hidden input stores its value in the form data, and
  \<open>handleSubmit\<close> sends that value.
\<close>

theorem gotcha_sent_nonempty:
  "(let s = foldl handleChange initial
              [(''name'', js ''Ada''), (''email'', js ''a@b.co''), (''message'', js ''Hi''),
               (''_gotcha'', js ''bot'')];
        s' = handleSubmit (\<lambda>v. v = js ''a@b.co'') (\<lambda>req. Resolved \<lparr>ok = True, status = 200\<rparr>) s
    in map (\<lambda>req. map_of (body req) ''_gotcha'') (fetched s') = [Some (js ''bot'')])
   \<and> js ''bot'' \<noteq> []"
proof -
  have e: "js ''Ada'' \<noteq> []" "js ''Hi'' \<noteq> []" "js ''bot'' \<noteq> []"
    by (simp_all add: js_def)
  have t: "trim (js ''a@b.co'') = js ''a@b.co''"
    by (simp add: trim_def js_def isWhiteSpace_def)
  have s: "foldl handleChange initial
              [(''name'', js ''Ada''), (''email'', js ''a@b.co''), (''message'', js ''Hi''),
               (''_gotcha'', js ''bot'')]
         = initial\<lparr>formData := \<lparr>name = js ''Ada'', email = js ''a@b.co'', eventDate = [],
              eventType = [], location = [], message = js ''Hi'', gotcha = js ''bot''\<rparr>\<rparr>"
    by (simp add: handleChange_def initial_def empty_form_def)
  have h: "contactSchema_parse (\<lambda>v. v = js ''a@b.co'')
      (formData (initial\<lparr>formData := \<lparr>name = js ''Ada'', email = js ''a@b.co'', eventDate = [],
              eventType = [], location = [], message = js ''Hi'', gotcha = js ''bot''\<rparr>\<rparr>)) = []"
    unfolding parse_ok_iff using e by (simp add: trim_examples t trim_Nil js_simps)
  have r: "fetched (handleSubmit (\<lambda>v. v = js ''a@b.co'') (\<lambda>req. Resolved \<lparr>ok = True, status = 200\<rparr>)
      (initial\<lparr>formData := \<lparr>name = js ''Ada'', email = js ''a@b.co'', eventDate = [],
              eventType = [], location = [], message = js ''Hi'', gotcha = js ''bot''\<rparr>\<rparr>))
     = [submit_request \<lparr>name = js ''Ada'', email = js ''a@b.co'', eventDate = [],
              eventType = [], location = [], message = js ''Hi'', gotcha = js ''bot''\<rparr>]"
    by (simp add: handleSubmit_valid [OF h] fetched_settle) (simp add: initial_def)
  show ?thesis
    unfolding s Let_def r
    using e by (simp add: body_submit_request)
qed

lemma gotcha_handleChange:
  "fst e \<noteq> ''_gotcha'' \<Longrightarrow> gotcha (formData (handleChange s e)) = gotcha (formData s)"
  by (simp add: handleChange_def Let_def)

lemma gotcha_handleChanges:
  "\<forall>e\<in>set es. fst e \<noteq> ''_gotcha'' \<Longrightarrow>
   gotcha (formData (foldl handleChange s es)) = gotcha (formData s)"
  by (induction es arbitrary: s) (simp_all add: gotcha_handleChange)

lemma gotcha_handleChange_hidden:
  "gotcha (formData (handleChange s (''_gotcha'', v))) = v"
  by (simp add: handleChange_def Let_def)

text \<open>
  C5, amended. Every request that \<open>handleSubmit\<close> sends has the member \<open>_gotcha\<close>, and its
  value is the value that the hidden field has in the form data at that moment. That
  value is the empty string in the initial state, change events on the other inputs
  leave it as it is, and a change event on the hidden input sets it to the value of the
  event, which later change events on the other inputs keep.
\<close>

theorem payload_gotcha:
  "(contactSchema_parse isEmail (formData s) = [] \<longrightarrow>
      fetched (handleSubmit isEmail net s) = fetched s @ [submit_request (formData s)]
      \<and> map_of (body (submit_request (formData s))) ''_gotcha'' = Some (gotcha (formData s)))
   \<and> ((\<forall>e\<in>set es. fst e \<noteq> ''_gotcha'') \<longrightarrow>
        gotcha (formData (foldl handleChange s es)) = gotcha (formData s))
   \<and> gotcha (formData initial) = []
   \<and> gotcha (formData (handleChange s (''_gotcha'', v))) = v
   \<and> ((\<forall>e\<in>set es. fst e \<noteq> ''_gotcha'') \<longrightarrow>
        gotcha (formData (foldl handleChange (handleChange s (''_gotcha'', v)) es)) = v)"
proof -
  have a: "fetched (handleSubmit isEmail net s) = fetched s @ [submit_request (formData s)]"
    if "contactSchema_parse isEmail (formData s) = []"
    by (simp add: handleSubmit_valid [OF that] fetched_settle)
  have b: "map_of (body (submit_request (formData s))) ''_gotcha'' = Some (gotcha (formData s))"
    by (simp add: body_submit_request)
  have c: "gotcha (formData initial) = []"
    by (simp add: initial_def empty_form_def)
  have d: "gotcha (formData (handleChange s (''_gotcha'', v))) = v"
    by (rule gotcha_handleChange_hidden)
  have e: "gotcha (formData (foldl handleChange (handleChange s (''_gotcha'', v)) es)) = v"
    if "\<forall>e\<in>set es. fst e \<noteq> ''_gotcha''"
    using gotcha_handleChanges [OF that, of "handleChange s (''_gotcha'', v)"] d by simp
  from a b c d e gotcha_handleChanges [of es s] show ?thesis
    by blast
qed

theorem payload_gotcha_witness:
  "(let s = foldl handleChange initial
              [(''name'', js ''Ada''), (''email'', js ''a@b.co''), (''message'', js ''Hi'')];
        s' = handleSubmit (\<lambda>v. v = js ''a@b.co'') (\<lambda>req. Resolved \<lparr>ok = True, status = 200\<rparr>) s
    in gotcha (formData s) = []
     \<and> map (\<lambda>req. map_of (body req) ''_gotcha'') (fetched s') = [Some []]
     \<and> gotcha (formData (handleChange s (''_gotcha'', js ''bot''))) = js ''bot''
     \<and> gotcha (formData (foldl handleChange (handleChange s (''_gotcha'', js ''bot''))
                  [(''message'', js ''Hello'')])) = js ''bot'')"
proof -
  have e: "js ''Ada'' \<noteq> []" "js ''Hi'' \<noteq> []"
    by (simp_all add: js_def)
  have t: "trim (js ''a@b.co'') = js ''a@b.co''"
    by (simp add: trim_def js_def isWhiteSpace_def)
  have k: "\<forall>e\<in>set [(''name'', js ''Ada''), (''email'', js ''a@b.co''), (''message'', js ''Hi'')].
             fst e \<noteq> ''_gotcha''"
    by simp
  have s: "foldl handleChange initial
              [(''name'', js ''Ada''), (''email'', js ''a@b.co''), (''message'', js ''Hi'')]
         = initial\<lparr>formData := \<lparr>name = js ''Ada'', email = js ''a@b.co'', eventDate = [],
              eventType = [], location = [], message = js ''Hi'', gotcha = []\<rparr>\<rparr>"
    by (simp add: handleChange_def initial_def empty_form_def)
  have h: "contactSchema_parse (\<lambda>v. v = js ''a@b.co'')
      (formData (foldl handleChange initial
              [(''name'', js ''Ada''), (''email'', js ''a@b.co''), (''message'', js ''Hi'')])) = []"
    unfolding s parse_ok_iff using e by (simp add: trim_examples t trim_Nil js_simps)
  have g: "gotcha (formData (foldl handleChange initial
              [(''name'', js ''Ada''), (''email'', js ''a@b.co''), (''message'', js ''Hi'')])) = []"
    using payload_gotcha [of "\<lambda>v. v = js ''a@b.co''" initial
        "\<lambda>req. Resolved \<lparr>ok = True, status = 200\<rparr>"
        "[(''name'', js ''Ada''), (''email'', js ''a@b.co''), (''message'', js ''Hi'')]"] k
    by simp
  have r: "fetched (handleSubmit (\<lambda>v. v = js ''a@b.co'') (\<lambda>req. Resolved \<lparr>ok = True, status = 200\<rparr>)
             (foldl handleChange initial
                [(''name'', js ''Ada''), (''email'', js ''a@b.co''), (''message'', js ''Hi'')]))
           = fetched (foldl handleChange initial
                [(''name'', js ''Ada''), (''email'', js ''a@b.co''), (''message'', js ''Hi'')])
             @ [submit_request (formData (foldl handleChange initial
                [(''name'', js ''Ada''), (''email'', js ''a@b.co''), (''message'', js ''Hi'')]))]"
    and m: "map_of (body (submit_request (formData (foldl handleChange initial
                [(''name'', js ''Ada''), (''email'', js ''a@b.co''), (''message'', js ''Hi'')]))))
              ''_gotcha''
           = Some (gotcha (formData (foldl handleChange initial
                [(''name'', js ''Ada''), (''email'', js ''a@b.co''), (''message'', js ''Hi'')])))"
    using payload_gotcha [of "\<lambda>v. v = js ''a@b.co''"
        "foldl handleChange initial
              [(''name'', js ''Ada''), (''email'', js ''a@b.co''), (''message'', js ''Hi'')]"
        "\<lambda>req. Resolved \<lparr>ok = True, status = 200\<rparr>" "[]"] h
    by blast+
  have f: "fetched (foldl handleChange initial
                [(''name'', js ''Ada''), (''email'', js ''a@b.co''), (''message'', js ''Hi'')]) = []"
    unfolding s by (simp add: initial_def)
  have n: "\<forall>e\<in>set [(''message'', js ''Hello'')]. fst e \<noteq> ''_gotcha''"
    by simp
  have v: "gotcha (formData (handleChange (foldl handleChange initial
                [(''name'', js ''Ada''), (''email'', js ''a@b.co''), (''message'', js ''Hi'')])
              (''_gotcha'', js ''bot''))) = js ''bot''"
    and w: "gotcha (formData (foldl handleChange (handleChange (foldl handleChange initial
                [(''name'', js ''Ada''), (''email'', js ''a@b.co''), (''message'', js ''Hi'')])
              (''_gotcha'', js ''bot'')) [(''message'', js ''Hello'')])) = js ''bot''"
    using payload_gotcha [of "\<lambda>v. v = js ''a@b.co''"
        "foldl handleChange initial
              [(''name'', js ''Ada''), (''email'', js ''a@b.co''), (''message'', js ''Hi'')]"
        "\<lambda>req. Resolved \<lparr>ok = True, status = 200\<rparr>" "[(''message'', js ''Hello'')]"
        "js ''bot''"] n
    by blast+
  show ?thesis
    unfolding Let_def r f using m g v w by simp
qed

text \<open>
  C6. One invocation of \<open>handleSubmit\<close> calls \<open>fetch\<close> at most once: the log of requests
  grows by the one request exactly when validation succeeds and by nothing otherwise,
  whatever the network answers; the part that runs after the answer sends nothing.
\<close>

theorem handleSubmit_single_request:
  "fetched (handleSubmit isEmail net s) =
     fetched s @ (if contactSchema_parse isEmail (formData s) = []
                  then [submit_request (formData s)] else [])
   \<and> length (fetched (handleSubmit isEmail net s)) \<le> length (fetched s) + 1
   \<and> fetched (handleSubmit_settle outcome t) = fetched t"
  by (cases "contactSchema_parse isEmail (formData s) = []")
     (simp_all add: handleSubmit_valid handleSubmit_invalid fetched_settle)

theorem handleSubmit_single_request_witness:
  "(let s = initial\<lparr>formData := empty_form\<lparr>name := js ''Ada'', email := js '' a@b.co '', message := js ''Hi''\<rparr>\<rparr>
    in length (fetched (handleSubmit (\<lambda>v. v = js ''a@b.co'') (\<lambda>req. Rejected NotAnError) s)) = 1
     \<and> length (fetched (handleSubmit (\<lambda>v. v = js ''a@b.co'')
                  (\<lambda>req. Resolved \<lparr>ok = False, status = 503\<rparr>) s)) = 1)"
proof -
  have e: "js ''Ada'' \<noteq> []" "js ''Hi'' \<noteq> []"
    by (simp_all add: js_def)
  have h: "contactSchema_parse (\<lambda>v. v = js ''a@b.co'')
      (formData (initial\<lparr>formData := empty_form\<lparr>name := js ''Ada'', email := js '' a@b.co '', message := js ''Hi''\<rparr>\<rparr>)) = []"
    unfolding parse_ok_iff using e by (simp add: trim_examples empty_form_def trim_Nil js_simps)
  show ?thesis
    using h
      handleSubmit_single_request [of "\<lambda>v. v = js ''a@b.co''" "\<lambda>req. Rejected NotAnError"
        "initial\<lparr>formData := empty_form\<lparr>name := js ''Ada'', email := js '' a@b.co '', message := js ''Hi''\<rparr>\<rparr>"]
      handleSubmit_single_request [of "\<lambda>v. v = js ''a@b.co''" "\<lambda>req. Resolved \<lparr>ok = False, status = 503\<rparr>"
        "initial\<lparr>formData := empty_form\<lparr>name := js ''Ada'', email := js '' a@b.co '', message := js ''Hi''\<rparr>\<rparr>"]
    by (simp add: Let_def initial_def)
qed

text \<open>
  C7. \<open>isSubmitting\<close> becomes true only when validation has succeeded: a failed validation
  returns with the flag as it was, a successful one leaves it true while the request is
  awaited. Whatever the answer, the part that runs after it leaves the flag false, so
  after a whole invocation that sent a request, and after any invocation that started
  with the flag false, the submit button is enabled and reads "Request Availability".
\<close>

theorem isSubmitting_toggles:
  "(contactSchema_parse isEmail (formData s) \<noteq> [] \<longrightarrow>
      snd (handleSubmit_begin isEmail s) = None
      \<and> isSubmitting (fst (handleSubmit_begin isEmail s)) = isSubmitting s
      \<and> isSubmitting (handleSubmit isEmail net s) = isSubmitting s)
   \<and> (contactSchema_parse isEmail (formData s) = [] \<longrightarrow>
      isSubmitting (fst (handleSubmit_begin isEmail s))
      \<and> button_label (fst (handleSubmit_begin isEmail s)) = ''Sending...''
      \<and> \<not> isSubmitting (handleSubmit isEmail net s))
   \<and> \<not> isSubmitting (handleSubmit_settle outcome t)
   \<and> \<not> button_disabled (handleSubmit_settle outcome t)
   \<and> button_label (handleSubmit_settle outcome t) = ''Request Availability''
   \<and> (\<not> isSubmitting s \<longrightarrow>
        \<not> button_disabled (handleSubmit isEmail net s)
        \<and> button_label (handleSubmit isEmail net s) = ''Request Availability'')"
proof -
  have a: "snd (handleSubmit_begin isEmail s) = None
      \<and> isSubmitting (fst (handleSubmit_begin isEmail s)) = isSubmitting s
      \<and> isSubmitting (handleSubmit isEmail net s) = isSubmitting s"
    if "contactSchema_parse isEmail (formData s) \<noteq> []"
    by (simp add: begin_invalid [OF that] handleSubmit_invalid [OF that])
  have b: "isSubmitting (fst (handleSubmit_begin isEmail s))
      \<and> button_label (fst (handleSubmit_begin isEmail s)) = ''Sending...''
      \<and> \<not> isSubmitting (handleSubmit isEmail net s)"
    if "contactSchema_parse isEmail (formData s) = []"
    by (simp add: begin_valid [OF that] handleSubmit_valid [OF that] isSubmitting_settle
          button_label_def)
  have c: "\<not> isSubmitting (handleSubmit_settle outcome t)"
    and d: "\<not> button_disabled (handleSubmit_settle outcome t)"
    and e: "button_label (handleSubmit_settle outcome t) = ''Request Availability''"
    by (simp_all add: isSubmitting_settle button_disabled_def button_label_def)
  have f: "\<not> button_disabled (handleSubmit isEmail net s)
      \<and> button_label (handleSubmit isEmail net s) = ''Request Availability''"
    if "\<not> isSubmitting s"
    using a b that
    by (cases "contactSchema_parse isEmail (formData s) = []")
       (simp_all add: button_disabled_def button_label_def)
  from a b c d e f show ?thesis
    by blast
qed

theorem isSubmitting_toggles_witness:
  "(let s = initial\<lparr>formData := empty_form\<lparr>name := js ''Ada'', email := js '' a@b.co '', message := js ''Hi''\<rparr>\<rparr>;
        bad = initial\<lparr>formData := empty_form\<lparr>name := js ''  '', email := js ''x'', message := js ''Hi''\<rparr>\<rparr>
    in isSubmitting (fst (handleSubmit_begin (\<lambda>v. v = js ''a@b.co'') s))
     \<and> \<not> isSubmitting (handleSubmit (\<lambda>v. v = js ''a@b.co'') (\<lambda>req. Rejected NotAnError) s)
     \<and> \<not> isSubmitting (fst (handleSubmit_begin (\<lambda>v. v = js ''a@b.co'') bad))
     \<and> button_label (handleSubmit (\<lambda>v. v = js ''a@b.co'') (\<lambda>req. Rejected NotAnError) bad)
         = ''Request Availability'')"
proof -
  have e: "js ''Ada'' \<noteq> []" "js ''Hi'' \<noteq> []"
    by (simp_all add: js_def)
  have h: "contactSchema_parse (\<lambda>v. v = js ''a@b.co'')
      (formData (initial\<lparr>formData := empty_form\<lparr>name := js ''Ada'', email := js '' a@b.co '', message := js ''Hi''\<rparr>\<rparr>)) = []"
    unfolding parse_ok_iff using e by (simp add: trim_examples empty_form_def trim_Nil js_simps)
  have b: "contactSchema_parse (\<lambda>v. v = js ''a@b.co'')
      (formData (initial\<lparr>formData := empty_form\<lparr>name := js ''  '', email := js ''x'', message := js ''Hi''\<rparr>\<rparr>)) \<noteq> []"
    unfolding parse_ok_iff by (simp add: trim_examples)
  have i: "\<not> isSubmitting (initial\<lparr>formData := empty_form\<lparr>name := js ''  '', email := js ''x'', message := js ''Hi''\<rparr>\<rparr>)"
    by (simp add: initial_def)
  show ?thesis
    unfolding Let_def
    using h b i
      isSubmitting_toggles [of "\<lambda>v. v = js ''a@b.co''"
        "initial\<lparr>formData := empty_form\<lparr>name := js ''Ada'', email := js '' a@b.co '', message := js ''Hi''\<rparr>\<rparr>"
        "\<lambda>req. Rejected NotAnError"]
      isSubmitting_toggles [of "\<lambda>v. v = js ''a@b.co''"
        "initial\<lparr>formData := empty_form\<lparr>name := js ''  '', email := js ''x'', message := js ''Hi''\<rparr>\<rparr>"
        "\<lambda>req. Rejected NotAnError"]
    by blast
qed

text \<open>
  C8. On every render of \<open>ScrollToTop\<close> whose pathname or hash differs from that of the
  render before (and on the first render), the effect calls \<open>window.scrollTo\<close> once,
  with top 0 and left 0.
\<close>

theorem ScrollToTop_scrolls:
  assumes "deps c = None
         \<or> (\<exists>p h. deps c = Some (p, h) \<and> (pathname loc \<noteq> p \<or> hash loc \<noteq> h))"
  shows "scrolled (ScrollToTop loc c) =
           scrolled c @ [\<lparr>top_pos = 0, left_pos = 0, behavior = ''smooth''\<rparr>]
       \<and> deps (ScrollToTop loc c) = Some (pathname loc, hash loc)"
  using assms by (auto simp: ScrollToTop_def Let_def)

theorem ScrollToTop_scrolls_witness:
  "(let c = ScrollToTop \<lparr>pathname = js ''/'', search = [], hash = []\<rparr> \<lparr>deps = None, scrolled = []\<rparr>;
        c' = ScrollToTop \<lparr>pathname = js ''/contact'', search = [], hash = []\<rparr> c
    in map top_pos (scrolled c') = [0, 0] \<and> map left_pos (scrolled c') = [0, 0]
     \<and> deps c' = Some (js ''/contact'', []))"
proof -
  have n: "js ''/contact'' \<noteq> js ''/''"
    by (simp add: js_def)
  have c: "ScrollToTop \<lparr>pathname = js ''/'', search = [], hash = []\<rparr> \<lparr>deps = None, scrolled = []\<rparr>
      = \<lparr>deps = Some (js ''/'', []),
         scrolled = [\<lparr>top_pos = 0, left_pos = 0, behavior = ''smooth''\<rparr>]\<rparr>"
    by (simp add: ScrollToTop_def)
  have h: "deps \<lparr>deps = Some (js ''/'', []),
         scrolled = [\<lparr>top_pos = 0, left_pos = 0, behavior = ''smooth''\<rparr>]\<rparr> = None
     \<or> (\<exists>p h. deps \<lparr>deps = Some (js ''/'', []),
         scrolled = [\<lparr>top_pos = 0, left_pos = 0, behavior = ''smooth''\<rparr>]\<rparr> = Some (p, h)
         \<and> (pathname \<lparr>pathname = js ''/contact'', search = [], hash = []\<rparr> \<noteq> p
            \<or> hash \<lparr>pathname = js ''/contact'', search = [], hash = []\<rparr> \<noteq> h))"
    using n by simp
  show ?thesis
    unfolding Let_def c
    using ScrollToTop_scrolls [OF h] by simp
qed

text \<open>
  C9. A name or a message made only of whitespace code units is empty once trimmed, so
  it fails the minimum-length check of the schema, and \<open>handleSubmit\<close> makes no request.
\<close>

theorem whitespace_only_rejected:
  assumes "(\<forall>c\<in>set (name (formData s)). isWhiteSpace c)
         \<or> (\<forall>c\<in>set (message (formData s)). isWhiteSpace c)"
  shows "contactSchema_parse isEmail (formData s) \<noteq> []
       \<and> \<not> fst (validateForm isEmail s)
       \<and> fetched (handleSubmit isEmail net s) = fetched s
       \<and> ((\<forall>c\<in>set (name (formData s)). isWhiteSpace c) \<longrightarrow>
            trim (name (formData s)) = []
            \<and> errors (handleSubmit isEmail net s) ''name'' = Some (too_small 1))
       \<and> ((\<forall>c\<in>set (message (formData s)). isWhiteSpace c) \<longrightarrow>
            trim (message (formData s)) = []
            \<and> errors (handleSubmit isEmail net s) ''message'' = Some (too_small 1))"
proof -
  from assms have t: "trim (name (formData s)) = [] \<or> trim (message (formData s)) = []"
    by (auto simp: trim_whitespace)
  then have bad: "contactSchema_parse isEmail (formData s) \<noteq> []"
    unfolding parse_ok_iff by auto
  have v: "\<not> fst (validateForm isEmail s)"
    using bad by (simp add: validateForm_def split: list.split)
  have f: "fetched (handleSubmit isEmail net s) = fetched s"
    by (simp add: handleSubmit_invalid [OF bad])
  have n: "trim (name (formData s)) = []
      \<and> errors (handleSubmit isEmail net s) ''name'' = Some (too_small 1)"
    if "\<forall>c\<in>set (name (formData s)). isWhiteSpace c"
    using trim_whitespace [OF that] by (simp add: handleSubmit_invalid [OF bad] newErrors_lookup)
  have m: "trim (message (formData s)) = []
      \<and> errors (handleSubmit isEmail net s) ''message'' = Some (too_small 1)"
    if "\<forall>c\<in>set (message (formData s)). isWhiteSpace c"
    using trim_whitespace [OF that] by (simp add: handleSubmit_invalid [OF bad] newErrors_lookup)
  from bad v f n m show ?thesis
    by blast
qed

theorem whitespace_only_rejected_witness:
  "(let s = initial\<lparr>formData := empty_form\<lparr>name := [0x0020, 0x0009, 0x00A0, 0x2003],
                          email := js ''a@b.co'', message := js ''Hi''\<rparr>\<rparr>;
        s' = handleSubmit (\<lambda>v. v = js ''a@b.co'') (\<lambda>req. Resolved \<lparr>ok = True, status = 200\<rparr>) s
    in fetched s' = [] \<and> errors s' ''name'' = Some (too_small 1))"
proof -
  have h: "(\<forall>c\<in>set (name (formData (initial\<lparr>formData := empty_form\<lparr>name := [0x0020, 0x0009, 0x00A0, 0x2003],
                          email := js ''a@b.co'', message := js ''Hi''\<rparr>\<rparr>))). isWhiteSpace c)"
    by (simp add: isWhiteSpace_def)
  show ?thesis
    unfolding Let_def
    using h whitespace_only_rejected [OF disjI1, OF h, of "\<lambda>v. v = js ''a@b.co''"
        "\<lambda>req. Resolved \<lparr>ok = True, status = 200\<rparr>"]
    by (simp add: initial_def)
qed

text \<open>
  C10. \<open>handleSubmit\<close> clears \<open>submitError\<close> before it validates, and a failed validation
  leaves it cleared. After a whole invocation \<open>submitError\<close> is set exactly when the form
  was valid and the request was rejected or came back not ok; so the banner, which is
  rendered from \<open>submitError\<close>, is never shown for a validation error.
\<close>

theorem submitError_only_for_request_failure:
  "submitError (fst (handleSubmit_begin isEmail s)) = None
   \<and> (contactSchema_parse isEmail (formData s) \<noteq> [] \<longrightarrow>
        submitError (handleSubmit isEmail net s) = None
        \<and> banner (handleSubmit isEmail net s) = None)
   \<and> (submitError (handleSubmit isEmail net s) \<noteq> None \<longleftrightarrow>
        contactSchema_parse isEmail (formData s) = []
        \<and> (case net (submit_request (formData s)) of
              Rejected e \<Rightarrow> True | Resolved r \<Rightarrow> \<not> ok r))
   \<and> (banner (handleSubmit isEmail net s) \<noteq> None \<longrightarrow>
        contactSchema_parse isEmail (formData s) = []
        \<and> (case net (submit_request (formData s)) of
              Rejected e \<Rightarrow> True | Resolved r \<Rightarrow> \<not> ok r))"
proof -
  have a: "submitError (fst (handleSubmit_begin isEmail s)) = None"
    by (cases "contactSchema_parse isEmail (formData s) = []")
       (simp_all add: begin_valid begin_invalid)
  have b: "submitError (handleSubmit isEmail net s) = None"
    if "contactSchema_parse isEmail (formData s) \<noteq> []"
    by (simp add: handleSubmit_invalid [OF that])
  have c: "submitError (handleSubmit isEmail net s) \<noteq> None \<longleftrightarrow>
        (case net (submit_request (formData s)) of Rejected e \<Rightarrow> True | Resolved r \<Rightarrow> \<not> ok r)"
    if "contactSchema_parse isEmail (formData s) = []"
    by (simp add: handleSubmit_valid [OF that] handleSubmit_settle_def catch_block_eq
          split: fetch_outcome.split)
  have d: "banner t \<noteq> None \<Longrightarrow> submitError t \<noteq> None" for t
    by (cases "submitError t") (simp_all add: banner_def)
  have e: "submitError t = None \<Longrightarrow> banner t = None" for t
    by (simp add: banner_def)
  show ?thesis
  proof (cases "contactSchema_parse isEmail (formData s) = []")
    case True
    with a c [OF True] d [of "handleSubmit isEmail net s"] show ?thesis
      by simp
  next
    case False
    with a b [OF False] e [of "handleSubmit isEmail net s"] show ?thesis
      by simp
  qed
qed

theorem submitError_only_for_request_failure_witness:
  "(let bad = initial\<lparr>formData := empty_form\<lparr>name := js ''  '', email := js ''x'', message := js ''Hi''\<rparr>,
                      submitError := Some (js ''Request failed (500)'')\<rparr>
    in submitError (handleSubmit (\<lambda>v. v = js ''a@b.co'') (\<lambda>req. Rejected NotAnError) bad) = None
     \<and> banner (handleSubmit (\<lambda>v. v = js ''a@b.co'') (\<lambda>req. Rejected NotAnError) bad) = None)"
proof -
  have b: "contactSchema_parse (\<lambda>v. v = js ''a@b.co'')
      (formData (initial\<lparr>formData := empty_form\<lparr>name := js ''  '', email := js ''x'', message := js ''Hi''\<rparr>,
                      submitError := Some (js ''Request failed (500)'')\<rparr>)) \<noteq> []"
    unfolding parse_ok_iff by (simp add: trim_examples)
  show ?thesis
    unfolding Let_def
    using b submitError_only_for_request_failure [of "\<lambda>v. v = js ''a@b.co''"
        "initial\<lparr>formData := empty_form\<lparr>name := js ''  '', email := js ''x'', message := js ''Hi''\<rparr>,
                      submitError := Some (js ''Request failed (500)'')\<rparr>"
        "\<lambda>req. Rejected NotAnError"]
    by blast
qed

end
